theory Spec2Isabelle
  imports Main "HOL-Library.Sublist" "HOL-Library.Multiset"
begin

section \<open>Python strings\<close>

text \<open>
  A command is a Python \<^verbatim>\<open>str\<close>. It is modelled as a \<^typ>\<open>string\<close> whose characters are
  the code points below 256, so that \<^verbatim>\<open>lower\<close>, \<^verbatim>\<open>strip\<close>, the regex classes
  \<^verbatim>\<open>\d\<close> and \<^verbatim>\<open>\s\<close> and \<^verbatim>\<open>int\<close> are the ones Python applies to these code points.
  The substring test \<^verbatim>\<open>a in b\<close> is \<^term>\<open>sublist a b\<close>.
\<close>

datatype py_error = ValueError | IndexError | OverflowError

definition isspace :: "char \<Rightarrow> bool" where
  \<comment> \<open>\<^verbatim>\<open>str.isspace\<close>, also the class \<^verbatim>\<open>\s\<close> of \<^verbatim>\<open>re\<close> and what \<^verbatim>\<open>strip()\<close> removes\<close>
  "isspace c = (of_char c \<in> {9, 10, 11, 12, 13, 28, 29, 30, 31, 32, 133, 160 :: nat})"

definition isdecimal :: "char \<Rightarrow> bool" where
  \<comment> \<open>the class \<^verbatim>\<open>\d\<close> of \<^verbatim>\<open>re\<close>, and the digits \<^verbatim>\<open>int\<close> accepts\<close>
  "isdecimal c = (48 \<le> (of_char c :: nat) \<and> (of_char c :: nat) \<le> 57)"

definition lower_char :: "char \<Rightarrow> char" where
  "lower_char c =
     (let n = (of_char c :: nat)
      in if (65 \<le> n \<and> n \<le> 90) \<or> (192 \<le> n \<and> n \<le> 222 \<and> n \<noteq> 215)
         then char_of (n + 32) else c)"

definition lower :: "string \<Rightarrow> string" where
  "lower s = map lower_char s"

definition strip :: "string \<Rightarrow> string" where
  "strip s = rev (dropWhile isspace (rev (dropWhile isspace s)))"

fun find_str :: "string \<Rightarrow> string \<Rightarrow> nat option" where
  \<comment> \<open>the lowest index at which \<open>sub\<close> occurs\<close>
  "find_str sub [] = (if sub = [] then Some 0 else None)"
| "find_str sub (c # cs) =
     (if prefix sub (c # cs) then Some 0 else map_option Suc (find_str sub cs))"

definition str_find :: "string \<Rightarrow> string \<Rightarrow> int" where
  \<comment> \<open>\<^verbatim>\<open>s.find(sub)\<close>: -1 when \<open>sub\<close> does not occur\<close>
  "str_find s sub = (case find_str sub s of None \<Rightarrow> - 1 | Some i \<Rightarrow> int i)"

definition slice_from :: "string \<Rightarrow> int \<Rightarrow> string" where
  \<comment> \<open>\<^verbatim>\<open>s[k:]\<close>: a negative \<open>k\<close> counts from the end\<close>
  "slice_from s k = (if k < 0 then drop (nat (int (length s) + k)) s else drop (nat k) s)"

definition split1_after :: "string \<Rightarrow> string \<Rightarrow> py_error + string" where
  \<comment> \<open>\<^verbatim>\<open>s.split(sep, 1)[1]\<close>: the text after the first occurrence of \<open>sep\<close>\<close>
  "split1_after s sep =
     (if sep = [] then Inl ValueError
      else case find_str sep s of
             None \<Rightarrow> Inl IndexError
           | Some i \<Rightarrow> Inr (drop (i + length sep) s))"

definition first_token :: "string \<Rightarrow> string" where
  \<comment> \<open>\<^verbatim>\<open>s.split(" ")[0]\<close>\<close>
  "first_token s = takeWhile (\<lambda>c. c \<noteq> CHR '' '') s"

fun join :: "string \<Rightarrow> string list \<Rightarrow> string" where
  "join sep [] = []"
| "join sep [x] = x"
| "join sep (x # y # ys) = x @ sep @ join sep (y # ys)"

fun str_nat :: "nat \<Rightarrow> string" where
  "str_nat n =
     (if n < 10 then [char_of (48 + n)]
      else str_nat (n div 10) @ [char_of (48 + n mod 10)])"

definition str_int :: "int \<Rightarrow> string" where
  \<comment> \<open>\<^verbatim>\<open>str(n)\<close>, as an f-string prints an integer\<close>
  "str_int n = (if n < 0 then ''-'' @ str_nat (nat (- n)) else str_nat (nat n))"

subsection \<open>\<^verbatim>\<open>int(s)\<close>\<close>

definition int_space :: "char \<Rightarrow> bool" where
  \<comment> \<open>the whitespace \<^verbatim>\<open>int\<close> skips at both ends\<close>
  "int_space c = (of_char c \<in> {9, 10, 11, 12, 13, 32, 133, 160 :: nat})"

definition digit_val :: "char \<Rightarrow> int" where
  "digit_val c = of_char c - 48"

fun parse_digits :: "int \<Rightarrow> string \<Rightarrow> int option" where
  \<comment> \<open>digits, with single underscores allowed between two digits\<close>
  "parse_digits acc [] = Some acc"
| "parse_digits acc (c # cs) =
     (if isdecimal c then parse_digits (10 * acc + digit_val c) cs
      else if c = CHR ''_'' then
        (case cs of
           [] \<Rightarrow> None
         | d # ds \<Rightarrow> if isdecimal d then parse_digits (10 * acc + digit_val d) ds else None)
      else None)"

definition int_max_str_digits :: nat where
  \<comment> \<open>CPython's default limit on the digits of a decimal numeral (3.11 and later)\<close>
  "int_max_str_digits = 4300"

definition py_int :: "string \<Rightarrow> int option" where
  \<comment> \<open>\<^verbatim>\<open>int(s)\<close>; \<open>None\<close> is ValueError\<close>
  "py_int s =
     (let t = dropWhile int_space s;
          neg = prefix ''-'' t;
          u = (if prefix ''-'' t \<or> prefix ''+'' t then tl t else t);
          body = rev (dropWhile int_space (rev u))
      in if body = [] \<or> \<not> isdecimal (hd body) then None
         else if int_max_str_digits < length (filter isdecimal body) then None
         else map_option (\<lambda>n. if neg then - n else n) (parse_digits 0 body))"

section \<open>Dates and times\<close>

text \<open>
  A naive \<^verbatim>\<open>datetime\<close> is the number of microseconds since 0001-01-01T00:00:00, between
  \<^verbatim>\<open>datetime.min\<close> (0) and \<^verbatim>\<open>datetime.max\<close>. A \<^verbatim>\<open>timedelta\<close> is a number of
  microseconds, of at most 999999999 days in magnitude. Both constructors raise
  OverflowError outside their range.
\<close>

type_synonym datetime = int

definition timedelta_seconds :: "int \<Rightarrow> py_error + int" where
  \<comment> \<open>\<^verbatim>\<open>datetime.timedelta(seconds=n)\<close>\<close>
  "timedelta_seconds n =
     (if - 999999999 \<le> n div 86400 \<and> n div 86400 \<le> 999999999
      then Inr (n * 1000000) else Inl OverflowError)"

definition timedelta_minutes :: "int \<Rightarrow> py_error + int" where
  \<comment> \<open>\<^verbatim>\<open>datetime.timedelta(minutes=n)\<close>\<close>
  "timedelta_minutes n = timedelta_seconds (60 * n)"

definition datetime_add :: "datetime \<Rightarrow> int \<Rightarrow> py_error + datetime" where
  \<comment> \<open>\<^verbatim>\<open>datetime + timedelta\<close>\<close>
  "datetime_add t d =
     (if 0 \<le> t + d \<and> t + d < 315537897600000000 then Inr (t + d) else Inl OverflowError)"

definition two_digits :: "nat \<Rightarrow> string" where
  "two_digits n = [char_of (48 + n div 10), char_of (48 + n mod 10)]"

definition strftime_I_M_p :: "datetime \<Rightarrow> string" where
  \<comment> \<open>\<^verbatim>\<open>strftime("%I:%M %p")\<close>\<close>
  "strftime_I_M_p t =
     (let hour = nat ((t div 3600000000) mod 24);
          minute = nat ((t div 60000000) mod 60)
      in two_digits (if hour mod 12 = 0 then 12 else hour mod 12) @ '':'' @ two_digits minute
         @ '' '' @ (if hour < 12 then ''AM'' else ''PM''))"

section \<open>Reminders and responses\<close>

text \<open>
  A reminder is the dictionary \<^verbatim>\<open>{"time": ..., "text": ...}\<close>. The source stores the time as
  its \<^verbatim>\<open>isoformat()\<close> string and reads it back with \<^verbatim>\<open>fromisoformat\<close>; the round trip
  returns the same naive datetime, so the model keeps the datetime.
\<close>

record reminder =
  r_time :: datetime
  r_text :: string

datatype fields =
    NoFields
  | WeatherFields string string string string string
      \<comment> \<open>location, temperature, humidity, pressure, description\<close>
  | Articles "(string \<times> string) list"
      \<comment> \<open>title and url of each article\<close>
  | Reminder reminder

text \<open>What a handler returns: a dictionary with \<^verbatim>\<open>"text"\<close> and the handler's own keys.\<close>

record result =
  res_text :: string
  res_fields :: fields

text \<open>What the endpoint returns: the handler's dictionary and \<^verbatim>\<open>"type"\<close>.\<close>

record response =
  rtype :: string
  rtext :: string
  rfields :: fields

definition with_type :: "string \<Rightarrow> result \<Rightarrow> response" where
  \<comment> \<open>\<^verbatim>\<open>{"type": t, **r}\<close>\<close>
  "with_type t r = \<lparr>rtype = t, rtext = res_text r, rfields = res_fields r\<rparr>"

datatype reply =
    Ok200 response
  | Err500 py_error
      \<comment> \<open>\<^verbatim>\<open>{"text": "An error occurred: {e}", "type": "error"}\<close> with status 500\<close>

section \<open>The reminder-set handler\<close>

definition new_reminder ::
  "reminder list \<Rightarrow> string \<Rightarrow> datetime \<Rightarrow> int \<Rightarrow> string
     \<Rightarrow> (py_error + result) \<times> reminder list" where
  \<comment> \<open>the three lines both units share: build the record, append it, confirm\<close>
  "new_reminder reminders reminder_text reminder_time n unit =
     (let reminder_data = \<lparr>r_time = reminder_time, r_text = reminder_text\<rparr>
      in (Inr \<lparr>res_text = ''Okay, I will remind you to '' @ [CHR 0x27] @ reminder_text
                   @ [CHR 0x27] @ '' in '' @ str_int n @ '' '' @ unit @ ''.'',
               res_fields = Reminder reminder_data\<rparr>,
          reminders @ [reminder_data]))"

definition set_reminder_body ::
  "datetime \<Rightarrow> reminder list \<Rightarrow> string \<Rightarrow> string \<Rightarrow> (py_error + result) \<times> reminder list" where
  \<comment> \<open>the body of the \<^verbatim>\<open>try\<close>; \<open>Inl\<close> is the exception it raises\<close>
  "set_reminder_body now reminders reminder_text time_str =
     (if sublist ''seconds'' time_str then
        (case py_int (first_token time_str) of
           None \<Rightarrow> (Inl ValueError, reminders)
         | Some seconds \<Rightarrow>
             (case timedelta_seconds seconds of
                Inl e \<Rightarrow> (Inl e, reminders)
              | Inr d \<Rightarrow>
                  (case datetime_add now d of
                     Inl e \<Rightarrow> (Inl e, reminders)
                   | Inr reminder_time \<Rightarrow>
                       new_reminder reminders reminder_text reminder_time seconds ''seconds'')))
      else if sublist ''minutes'' time_str then
        (case py_int (first_token time_str) of
           None \<Rightarrow> (Inl ValueError, reminders)
         | Some minutes \<Rightarrow>
             (case timedelta_minutes minutes of
                Inl e \<Rightarrow> (Inl e, reminders)
              | Inr d \<Rightarrow>
                  (case datetime_add now d of
                     Inl e \<Rightarrow> (Inl e, reminders)
                   | Inr reminder_time \<Rightarrow>
                       new_reminder reminders reminder_text reminder_time minutes ''minutes'')))
      else (Inr \<lparr>res_text = ''I can only set reminders in seconds or minutes for now. Please try again.'',
                 res_fields = NoFields\<rparr>, reminders))"

definition set_reminder_data ::
  "datetime \<Rightarrow> reminder list \<Rightarrow> string \<Rightarrow> string \<Rightarrow> (py_error + result) \<times> reminder list" where
  \<comment> \<open>\<^verbatim>\<open>except (ValueError, IndexError)\<close>: any other exception goes to the caller\<close>
  "set_reminder_data now reminders reminder_text time_str =
     (case set_reminder_body now reminders reminder_text time_str of
        (Inl e, reminders') \<Rightarrow>
          (if e = ValueError \<or> e = IndexError
           then (Inr \<lparr>res_text = ''Sorry, I couldn'' @ [CHR 0x27] @ ''t understand the time. Please specify a number followed by ''
                          @ [CHR 0x27] @ ''seconds'' @ [CHR 0x27] @ '' or '' @ [CHR 0x27] @ ''minutes'' @ [CHR 0x27] @ ''.'',
                      res_fields = NoFields\<rparr>, reminders')
           else (Inl e, reminders'))
      | (Inr r, reminders') \<Rightarrow> (Inr r, reminders'))"

section \<open>The due-sweep\<close>

definition due :: "datetime \<Rightarrow> reminder \<Rightarrow> bool" where
  "due current_time r = (current_time \<ge> r_time r)"

definition alert :: "reminder \<Rightarrow> response" where
  "alert r = \<lparr>rtype = ''reminder_alert'', rtext = ''Reminder: '' @ r_text r, rfields = NoFields\<rparr>"

fun scan :: "datetime \<Rightarrow> reminder list \<Rightarrow> response \<Rightarrow> reminder list \<Rightarrow> response \<times> reminder list" where
  \<comment> \<open>the first loop, over the store, carrying \<open>response_data\<close> and \<open>reminders_to_remove\<close>\<close>
  "scan current_time [] response_data reminders_to_remove = (response_data, reminders_to_remove)"
| "scan current_time (r # rs) response_data reminders_to_remove =
     (if due current_time r
      then scan current_time rs (alert r) (reminders_to_remove @ [r])
      else scan current_time rs response_data reminders_to_remove)"

fun remove_all :: "reminder list \<Rightarrow> reminder list \<Rightarrow> (py_error + unit) \<times> reminder list" where
  \<comment> \<open>the second loop; \<^verbatim>\<open>list.remove\<close> deletes the first equal element and raises
      ValueError when there is none\<close>
  "remove_all [] reminders = (Inr (), reminders)"
| "remove_all (r # rs) reminders =
     (if r \<in> set reminders then remove_all rs (remove1 r reminders)
      else (Inl ValueError, reminders))"

definition due_sweep ::
  "datetime \<Rightarrow> response \<Rightarrow> reminder list \<Rightarrow> (py_error + response) \<times> reminder list" where
  "due_sweep current_time response_data reminders =
     (case scan current_time reminders response_data [] of
        (response_data', reminders_to_remove) \<Rightarrow>
          (case remove_all reminders_to_remove reminders of
             (Inl e, reminders') \<Rightarrow> (Inl e, reminders')
           | (Inr u, reminders') \<Rightarrow> (Inr response_data', reminders')))"

section \<open>The external collaborators\<close>

text \<open>
  The two HTTP APIs are parameters: each maps the complete URL of a request to what
  \<^verbatim>\<open>requests.get\<close>, \<^verbatim>\<open>raise_for_status\<close> and \<^verbatim>\<open>json\<close> give for it, either a
  \<^verbatim>\<open>RequestException\<close> with its message or the fields of the reply that the code reads.
  Replies have the fields of the APIs' schemas; numbers come already printed.
\<close>

datatype geo_reply =
    GeoRequestException string
  | GeoData "(string \<times> string) list"
      \<comment> \<open>\<^verbatim>\<open>lat\<close> and \<^verbatim>\<open>lon\<close> of each place found\<close>

datatype weather_body =
    Cod404
  | Conditions string "string option" "string option" string
      \<comment> \<open>\<^verbatim>\<open>temp\<close> printed with one decimal, \<^verbatim>\<open>humidity\<close> and \<^verbatim>\<open>pressure\<close>
          when present, \<^verbatim>\<open>description\<close>\<close>

datatype weather_reply =
    WeatherRequestException string
  | WeatherData weather_body

datatype news_reply =
    NewsRequestException string
  | NewsData string "(string \<times> string) list"
      \<comment> \<open>\<^verbatim>\<open>response.status\<close>, and \<^verbatim>\<open>webTitle\<close> and \<^verbatim>\<open>webUrl\<close> of each of
          \<^verbatim>\<open>response.results\<close>\<close>

record env =
  OPENWEATHER_API_KEY :: "string option"
  GUARDIAN_API_KEY :: "string option"
  geo_get :: "string \<Rightarrow> geo_reply"
  weather_get :: "string \<Rightarrow> weather_reply"
  news_get :: "string \<Rightarrow> news_reply"
  one_day_ago :: string
    \<comment> \<open>\<^verbatim>\<open>(date.today() - timedelta(days=1)).isoformat()\<close>\<close>

definition WEATHER_LOCATION :: string where
  "WEATHER_LOCATION = ''New Delhi''"

definition truthy :: "string option \<Rightarrow> bool" where
  \<comment> \<open>Python's truth value of a string or \<^verbatim>\<open>None\<close>\<close>
  "truthy s = (case s of None \<Rightarrow> False | Some x \<Rightarrow> x \<noteq> [])"

definition get_city_coords :: "env \<Rightarrow> string \<Rightarrow> (string \<times> string) option" where
  "get_city_coords e city_name =
     (if \<not> truthy (OPENWEATHER_API_KEY e) then None
      else case geo_get e (''https://api.openweathermap.org/geo/1.0/direct?'' @ ''q='' @ city_name
                           @ ''&limit=1&appid='' @ the (OPENWEATHER_API_KEY e)) of
             GeoRequestException msg \<Rightarrow> None
           | GeoData [] \<Rightarrow> None
           | GeoData (location_data # rest) \<Rightarrow> Some location_data)"

definition get_weather_data :: "env \<Rightarrow> string option \<Rightarrow> result" where
  "get_weather_data e location =
     (if \<not> truthy (OPENWEATHER_API_KEY e)
      then \<lparr>res_text = ''Please set your OpenWeatherMap API key.'', res_fields = NoFields\<rparr>
      else
        let location_to_use = (if truthy location then the location else WEATHER_LOCATION);
            base_url = ''https://api.openweathermap.org/data/2.5/weather?'';
            complete_url =
              (case get_city_coords e location_to_use of
                 Some (lat, lon) \<Rightarrow>
                   base_url @ ''lat='' @ lat @ ''&lon='' @ lon @ ''&appid=''
                     @ the (OPENWEATHER_API_KEY e) @ ''&units=metric''
               | None \<Rightarrow>
                   base_url @ ''q='' @ location_to_use @ ''&appid=''
                     @ the (OPENWEATHER_API_KEY e) @ ''&units=metric'')
        in case weather_get e complete_url of
             WeatherRequestException msg \<Rightarrow>
               \<lparr>res_text = ''Sorry, I had trouble getting the weather. The error was: '' @ msg,
                res_fields = NoFields\<rparr>
           | WeatherData Cod404 \<Rightarrow>
               \<lparr>res_text = ''I couldn'' @ [CHR 0x27] @ ''t find the weather for '' @ location_to_use @ ''.'',
                res_fields = NoFields\<rparr>
           | WeatherData (Conditions temperature hum pres weather_description) \<Rightarrow>
               let humidity = (case hum of None \<Rightarrow> ''not available'' | Some h \<Rightarrow> h);
                   pressure = (case pres of None \<Rightarrow> ''not available'' | Some p \<Rightarrow> p)
               in \<lparr>res_text = ''The temperature in '' @ location_to_use @ '' is '' @ temperature
                      @ '' degrees Celsius, with '' @ weather_description @ ''. The humidity is ''
                      @ humidity @ '' percent, and the atmospheric pressure is '' @ pressure
                      @ '' hectopascals.'',
                   res_fields = WeatherFields location_to_use
                      (temperature @ '' '' @ [CHR 0xC2, CHR 0xB0] @ ''C'')
                      (humidity @ ''%'') (pressure @ '' hPa'') weather_description\<rparr>)"

definition common_tags :: "string list" where
  "common_tags = [''politics'', ''technology'', ''sports'', ''science'', ''business'']"

fun headlines :: "nat \<Rightarrow> (string \<times> string) list \<Rightarrow> string list" where
  \<comment> \<open>\<^verbatim>\<open>[f"Headline number {i + 1}: {title}" for i, article in enumerate(articles)]\<close>,
      from index \<open>i\<close> on\<close>
  "headlines i [] = []"
| "headlines i ((title, url) # articles) =
     (''Headline number '' @ str_nat (i + 1) @ '': '' @ title) # headlines (Suc i) articles"

definition get_news_data :: "env \<Rightarrow> string option \<Rightarrow> result" where
  "get_news_data e query =
     (if \<not> truthy (GUARDIAN_API_KEY e)
      then \<lparr>res_text = ''Please set your Guardian API key.'', res_fields = Articles []\<rparr>
      else
        let base_url = ''https://content.guardianapis.com/search?'';
            from_date_param = ''&from-date='' @ one_day_ago e;
            url0 = base_url @ from_date_param @ ''&order-by=newest&page-size=5&api-key=''
                     @ the (GUARDIAN_API_KEY e);
            complete_url =
              (if truthy query then
                 (if the query \<in> set common_tags
                  then url0 @ ''&q='' @ the query @ ''&tag='' @ the query @ ''/'' @ the query
                  else url0 @ ''&q='' @ the query)
               else url0);
            intro_text =
              (if truthy query
               then ''Getting the latest news about '' @ the query @ '' from yesterday from The Guardian.''
               else ''Here are the top headlines from yesterday from The Guardian:'')
        in case news_get e complete_url of
             NewsRequestException msg \<Rightarrow>
               \<lparr>res_text = ''Sorry, I had trouble getting the news. The error was: '' @ msg,
                res_fields = Articles []\<rparr>
           | NewsData status articles \<Rightarrow>
               if status = ''ok'' \<and> articles \<noteq> [] then
                 (if articles = [] then
                    \<lparr>res_text = ''I couldn'' @ [CHR 0x27] @ ''t find any news headlines for that topic from yesterday.'',
                     res_fields = Articles []\<rparr>
                  else
                    \<lparr>res_text = intro_text @ '' '' @ join ''. '' (headlines 0 articles)
                       @ ''. Would you like me to provide the URLs to see the full articles?'',
                     res_fields = Articles articles\<rparr>)
               else
                 \<lparr>res_text = ''I couldn'' @ [CHR 0x27] @ ''t fetch any news headlines at the moment.'',
                  res_fields = Articles []\<rparr>)"

section \<open>The command endpoint\<close>

subsection \<open>What each branch extracts from the command\<close>

definition location_to_check :: "string \<Rightarrow> string option" where
  \<comment> \<open>the location the weather branch passes to \<open>get_weather_data\<close>\<close>
  "location_to_check command =
     (if sublist ''weather in'' command \<or> sublist ''weather at'' command then
        let location_keyword = (if sublist ''weather in'' command then ''weather in'' else ''weather at'');
            location_start_index = str_find command location_keyword + int (length location_keyword)
        in Some (strip (slice_from command location_start_index))
      else None)"

fun news_query :: "string \<Rightarrow> string list \<Rightarrow> py_error + string option" where
  \<comment> \<open>the loop over the trigger words: the first one found between spaces decides;
      \<^verbatim>\<open>except IndexError: pass\<close> goes on with the next word\<close>
  "news_query command [] = Inr None"
| "news_query command (word # trigger_words) =
     (if sublist ('' '' @ word @ '' '') command then
        (case split1_after command word of
           Inr rest \<Rightarrow> Inr (Some (strip rest))
         | Inl e \<Rightarrow> if e = IndexError then news_query command trigger_words else Inl e)
      else news_query command trigger_words)"

definition match_here :: "string \<Rightarrow> string option" where
  \<comment> \<open>the pattern \<^verbatim>\<open>(\d+)\s*(seconds?|minutes?)\<close> matched at the start of \<open>s\<close>, giving
      \<^verbatim>\<open>group(0)\<close>. Both repetitions are greedy, and a shorter repetition cannot match where
      the longest does not: the unit begins with a letter, which is neither a digit nor a space.\<close>
  "match_here s =
     (let digits = takeWhile isdecimal s;
          s1 = dropWhile isdecimal s;
          spaces = takeWhile isspace s1;
          s2 = dropWhile isspace s1
      in if digits = [] then None
         else if prefix ''second'' s2
           then Some (digits @ spaces @ (if prefix ''seconds'' s2 then ''seconds'' else ''second''))
         else if prefix ''minute'' s2
           then Some (digits @ spaces @ (if prefix ''minutes'' s2 then ''minutes'' else ''minute''))
         else None)"

fun re_search :: "string \<Rightarrow> string option" where
  \<comment> \<open>\<^verbatim>\<open>re.search\<close>: the match at the leftmost position that has one\<close>
  "re_search [] = None"
| "re_search (c # cs) =
     (case match_here (c # cs) of
        Some time_str \<Rightarrow> Some time_str
      | None \<Rightarrow> re_search cs)"

datatype reminder_parse =
    NoTime
  | NoMessage
  | Call string string
      \<comment> \<open>\<open>reminder_text\<close> and \<open>time_str\<close>, the arguments of \<open>set_reminder_data\<close>\<close>

definition parse_reminder :: "string \<Rightarrow> py_error + reminder_parse" where
  "parse_reminder command =
     (case re_search command of
        None \<Rightarrow> Inr NoTime
      | Some time_str \<Rightarrow>
          (case split1_after command time_str of
             Inl e \<Rightarrow> Inl e
           | Inr rest \<Rightarrow>
               let reminder_text_part = strip rest
               in if sublist '' to '' reminder_text_part then
                    (case split1_after reminder_text_part '' to '' of
                       Inl e \<Rightarrow> Inl e
                     | Inr msg \<Rightarrow>
                         if strip msg \<noteq> [] then Inr (Call (strip msg) time_str) else Inr NoMessage)
                  else if reminder_text_part \<noteq> [] then Inr (Call reminder_text_part time_str)
                  else Inr NoMessage))"

subsection \<open>The branches\<close>

definition any_in :: "string list \<Rightarrow> string \<Rightarrow> bool" where
  \<comment> \<open>\<^verbatim>\<open>any(keyword in command for keyword in keywords)\<close>\<close>
  "any_in keywords command = list_ex (\<lambda>keyword. sublist keyword command) keywords"

definition time_keywords :: "string list" where
  "time_keywords = [''time'', ''hour'', ''clock'', ''o'clock'']"

definition weather_keywords :: "string list" where
  "weather_keywords = [''weather'', ''climate'', ''forecast'', ''meteorology'', ''temperature'',
     ''cloud cover'', ''windspeed'', ''humidity'', ''pressure'']"

definition trigger_words :: "string list" where
  "trigger_words = [''on'', ''about'', ''relating to'', ''for'']"

definition reminder_keywords :: "string list" where
  "reminder_keywords = [''reminder'', ''remind me'', ''set reminder'']"

definition confirmation_words :: "string list" where
  "confirmation_words = [''yes'', ''would like'', ''i'd like that'', ''affirmative'', ''confirmative'',
     ''yep'', ''yeah'', ''please do'', ''sure'', ''positive'', ''do it'']"

definition goodbye_words :: "string list" where
  "goodbye_words = [''exit'', ''goodbye'', ''bye'', ''see you later'', ''tata'', ''see ya'',
     ''shareenna'', ''alvida'', ''adios'', ''ciao'', ''au revoir'', ''sayonara'', ''pootte'']"

definition unknown_response :: response where
  "unknown_response =
     \<lparr>rtype = ''error'',
      rtext = ''I'm sorry, I don't understand that command yet. Please try again.'',
      rfields = NoFields\<rparr>"

definition no_message_response :: response where
  "no_message_response =
     \<lparr>rtype = ''error'',
      rtext = ''I found a time, but couldn't find a reminder message. Please use a phrase like ''
        @ [CHR 0x27] @ ''remind me in 5 minutes to call mom.'' @ [CHR 0x27],
      rfields = NoFields\<rparr>"

definition no_time_response :: response where
  "no_time_response =
     \<lparr>rtype = ''error'',
      rtext = ''To set a reminder, please use a phrase like, '' @ [CHR 0x27]
        @ ''set a reminder to take out the trash in 5 minutes'' @ [CHR 0x27] @ ''.'',
      rfields = NoFields\<rparr>"

definition dispatch ::
  "env \<Rightarrow> datetime \<Rightarrow> reminder list \<Rightarrow> string \<Rightarrow> (py_error + response) \<times> reminder list" where
  \<comment> \<open>the chain of \<^verbatim>\<open>if\<close> and \<^verbatim>\<open>elif\<close> over the lowercased command; \<open>now\<close> is what
      \<^verbatim>\<open>datetime.now()\<close> returns inside the branch\<close>
  "dispatch e now reminders command =
     (if any_in time_keywords command then
        (Inr \<lparr>rtype = ''time'', rtext = ''The current time is '' @ strftime_I_M_p now,
              rfields = NoFields\<rparr>, reminders)
      else if any_in weather_keywords command then
        (Inr (with_type ''weather'' (get_weather_data e (location_to_check command))), reminders)
      else if sublist ''news'' command then
        (case news_query command trigger_words of
           Inl ex \<Rightarrow> (Inl ex, reminders)
         | Inr query \<Rightarrow> (Inr (with_type ''news'' (get_news_data e query)), reminders))
      else if any_in reminder_keywords command then
        (case parse_reminder command of
           Inl ex \<Rightarrow> (Inl ex, reminders)
         | Inr NoTime \<Rightarrow> (Inr no_time_response, reminders)
         | Inr NoMessage \<Rightarrow> (Inr no_message_response, reminders)
         | Inr (Call reminder_text time_str) \<Rightarrow>
             (case set_reminder_data now reminders reminder_text time_str of
                (Inl ex, reminders') \<Rightarrow> (Inl ex, reminders')
              | (Inr reminder_response, reminders') \<Rightarrow>
                  (Inr (with_type ''reminder_set'' reminder_response), reminders')))
      else if any_in confirmation_words command then
        (Inr \<lparr>rtype = ''news_confirmation'', rtext = ''Okay, displaying the links now.'',
              rfields = NoFields\<rparr>, reminders)
      else if any_in goodbye_words command then
        (Inr \<lparr>rtype = ''goodbye'', rtext = ''Goodbye! Have a great day.'', rfields = NoFields\<rparr>,
         reminders)
      else (Inr unknown_response, reminders))"

definition process_command ::
  "env \<Rightarrow> datetime \<Rightarrow> datetime \<Rightarrow> reminder list \<Rightarrow> string \<Rightarrow> reply \<times> reminder list" where
  \<comment> \<open>\<open>now\<close> is the clock inside the branch, \<open>current_time\<close> the clock at the sweep;
      \<^verbatim>\<open>except Exception\<close> turns whatever was raised into the 500 reply\<close>
  "process_command e now current_time reminders raw_command =
     (let command = lower raw_command
      in case dispatch e now reminders command of
           (Inl ex, reminders1) \<Rightarrow> (Err500 ex, reminders1)
         | (Inr response_data, reminders1) \<Rightarrow>
             (case due_sweep current_time response_data reminders1 of
                (Inl ex, reminders2) \<Rightarrow> (Err500 ex, reminders2)
              | (Inr response_data', reminders2) \<Rightarrow> (Ok200 response_data', reminders2)))"

section \<open>Runs and example data\<close>

text \<open>
  A run of sweeps over the store. Before each sweep the reminder-set handler may have
  appended the reminders \<open>added\<close>; the run collects what every sweep puts into
  \<open>reminders_to_remove\<close>, and returns the store that is left.
\<close>

fun sweeps ::
  "(reminder list \<times> datetime) list \<Rightarrow> response \<Rightarrow> reminder list \<Rightarrow> reminder list \<times> reminder list" where
  "sweeps [] response_data reminders = ([], reminders)"
| "sweeps ((added, current_time) # calls) response_data reminders =
     (let fired = snd (scan current_time (reminders @ added) response_data []);
          reminders' = snd (due_sweep current_time response_data (reminders @ added));
          later = sweeps calls response_data reminders'
      in (fired @ fst later, snd later))"

text \<open>
  An environment for the examples: both keys are configured, geocoding finds nothing, the
  weather API is unreachable, and the news API answers \<^verbatim>\<open>ok\<close> with no results.
\<close>

definition example_env :: env where
  "example_env =
     \<lparr>OPENWEATHER_API_KEY = Some ''weather-key'', GUARDIAN_API_KEY = Some ''news-key'',
      geo_get = (\<lambda>url. GeoData []),
      weather_get = (\<lambda>url. WeatherRequestException ''unreachable''),
      news_get = (\<lambda>url. NewsData ''ok'' []),
      one_day_ago = ''2026-11-02''\<rparr>"

section \<open>Strings: what the extracted texts are\<close>

lemma lower_char_idem: "lower_char (lower_char c) = lower_char c"
proof -
  have "of_char (char_of (of_char c + 32 :: nat)) = (of_char c + 32 :: nat)"
    if "(of_char c :: nat) \<le> 222"
    using that by simp
  then show ?thesis
    by (auto simp: lower_char_def Let_def)
qed

lemma lower_idem: "lower (lower s) = lower s"
  by (simp add: lower_def lower_char_idem)

lemma lower_sublist_fixed:
  assumes "sublist m (lower s)"
  shows "lower m = m"
proof -
  from assms have "set m \<subseteq> set (lower s)"
    by (rule set_mono_sublist)
  then have "\<forall>c \<in> set m. lower_char c = c"
    by (auto simp: lower_def lower_char_idem)
  then show ?thesis
    by (simp add: lower_def map_idI)
qed

lemma match_here_prefix:
  assumes "match_here s = Some t"
  shows "prefix t s"
proof -
  define s1 where "s1 = dropWhile isdecimal s"
  define s2 where "s2 = dropWhile isspace s1"
  have s: "s = takeWhile isdecimal s @ takeWhile isspace s1 @ s2"
    by (simp add: s1_def s2_def)
  have "\<exists>u. prefix u s2 \<and> t = takeWhile isdecimal s @ takeWhile isspace s1 @ u"
    using assms
    by (auto simp: match_here_def Let_def s1_def s2_def split: if_splits)
  then obtain u where u: "prefix u s2" "t = takeWhile isdecimal s @ takeWhile isspace s1 @ u"
    by blast
  from u(1) have "prefix (takeWhile isdecimal s @ takeWhile isspace s1 @ u)
                    (takeWhile isdecimal s @ takeWhile isspace s1 @ s2)"
    by simp
  with s u(2) show ?thesis by simp
qed

lemma re_search_sublist: "re_search s = Some t \<Longrightarrow> sublist t s"
proof (induction s)
  case Nil
  then show ?case by simp
next
  case (Cons c cs)
  show ?case
  proof (cases "match_here (c # cs)")
    case None
    with Cons show ?thesis by (simp add: sublist_Cons_right)
  next
    case (Some u)
    with Cons.prems have "u = t" by simp
    with Some show ?thesis
      using match_here_prefix prefix_imp_sublist by blast
  qed
qed

lemma split1_after_suffix: "split1_after s sep = Inr r \<Longrightarrow> suffix r s"
  by (auto simp: split1_after_def suffix_drop split: if_splits option.splits)

lemma strip_sublist: "sublist (strip s) s"
proof -
  have "prefix (strip s) (dropWhile isspace s)"
    unfolding strip_def
    by (metis suffix_dropWhile suffix_to_prefix rev_rev_ident)
  moreover have "suffix (dropWhile isspace s) s"
    by (rule suffix_dropWhile)
  ultimately show ?thesis
    by (meson prefix_imp_sublist suffix_imp_sublist sublist_order.order_trans)
qed

lemma sublist_strip_suffix: "suffix r s \<Longrightarrow> sublist (strip r) s"
  by (meson strip_sublist suffix_imp_sublist sublist_order.order_trans)

lemma parse_reminder_Call:
  assumes "parse_reminder command = Inr (Call reminder_text time_str)"
  shows "re_search command = Some time_str \<and> sublist time_str command
         \<and> sublist reminder_text command \<and> reminder_text \<noteq> []"
proof -
  from assms obtain rest where
    ts: "re_search command = Some time_str" and rest: "split1_after command time_str = Inr rest"
    by (auto simp: parse_reminder_def Let_def split: option.splits sum.splits if_splits)
  from rest have part: "sublist (strip rest) command"
    by (rule sublist_strip_suffix [OF split1_after_suffix])
  have "sublist reminder_text (strip rest) \<and> reminder_text \<noteq> []"
  proof (cases "sublist '' to '' (strip rest)")
    case True
    with assms ts rest obtain msg where
      "split1_after (strip rest) '' to '' = Inr msg" "reminder_text = strip msg" "strip msg \<noteq> []"
      by (auto simp: parse_reminder_def Let_def split: sum.splits if_splits)
    then show ?thesis
      using sublist_strip_suffix [OF split1_after_suffix, of "strip rest" "'' to ''" msg] by simp
  next
    case False
    with assms ts rest show ?thesis
      by (auto simp: parse_reminder_def Let_def split: if_splits)
  qed
  with part have "sublist reminder_text command \<and> reminder_text \<noteq> []"
    by (meson sublist_order.order_trans)
  with ts show ?thesis
    by (simp add: re_search_sublist)
qed

section \<open>The due-sweep in closed form\<close>

text \<open>
  The first loop reports the last due reminder and collects all due ones in order; the
  second loop then finds each of them in the store, so \<^verbatim>\<open>list.remove\<close> never raises and
  what is left are the reminders that are not due, in their order.
\<close>

lemma scan_eq:
  "scan t rs resp rem =
     (if filter (due t) rs = [] then resp else alert (last (filter (due t) rs)),
      rem @ filter (due t) rs)"
  by (induction rs arbitrary: resp rem) auto

lemma remove_all_filter:
  "\<forall>x \<in> set pre. \<not> P x \<Longrightarrow>
   remove_all (filter P xs) (pre @ xs) = (Inr (), pre @ filter (\<lambda>x. \<not> P x) xs)"
proof (induction xs arbitrary: pre)
  case Nil
  then show ?case by simp
next
  case (Cons x xs)
  show ?case
  proof (cases "P x")
    case True
    with Cons.prems have "x \<notin> set pre" by auto
    then have "remove1 x (pre @ x # xs) = pre @ xs"
      by (simp add: remove1_append)
    with True Cons.IH [OF Cons.prems] show ?thesis by simp
  next
    case False
    with Cons.prems have "\<forall>y \<in> set (pre @ [x]). \<not> P y" by auto
    from Cons.IH [OF this] False show ?thesis by simp
  qed
qed

lemma due_sweep_eq:
  "due_sweep t resp rs =
     (Inr (if filter (due t) rs = [] then resp else alert (last (filter (due t) rs))),
      filter (\<lambda>r. \<not> due t r) rs)"
  using remove_all_filter [of "[]" "due t" rs]
  by (simp add: due_sweep_def scan_eq)

lemma sweeps_conserve:
  "mset (fst (sweeps calls resp rs)) + mset (snd (sweeps calls resp rs)) =
     mset rs + mset (concat (map fst calls))"
proof (induction calls arbitrary: rs)
  case Nil
  show ?case by simp
next
  case (Cons call calls)
  obtain added t where call: "call = (added, t)" by (cases call)
  have part: "mset (filter (due t) (rs @ added)) + mset (filter (\<lambda>r. \<not> due t r) (rs @ added))
                = mset rs + mset added"
    by (metis mset_append mset_filter multiset_partition)
  show ?case
    using Cons.IH [of "filter (\<lambda>r. \<not> due t r) (rs @ added)"] part
    by (simp add: call Let_def scan_eq due_sweep_eq add.assoc del: filter_append)
qed

section \<open>The handlers in closed form\<close>

text \<open>
  Every outcome of the reminder-set handler: a confirmation that carries the reminder it
  appended, an error result with the store untouched, or OverflowError with the store
  untouched. ValueError is always caught.
\<close>

lemma set_reminder_data_cases:
  assumes "set_reminder_data now reminders reminder_text time_str = (out, reminders')"
  shows "(\<exists>txt d. out = Inr \<lparr>res_text = txt, res_fields = Reminder d\<rparr>
            \<and> r_text d = reminder_text \<and> reminders' = reminders @ [d])
         \<or> ((out = Inl OverflowError \<or> (\<exists>txt. out = Inr \<lparr>res_text = txt, res_fields = NoFields\<rparr>))
            \<and> reminders' = reminders)"
proof -
  have tdel: "e = OverflowError" if "timedelta_seconds n = Inl e" for n e
    using that by (auto simp: timedelta_seconds_def split: if_splits)
  have tadd: "e = OverflowError" if "datetime_add t d = Inl e" for t d e
    using that by (auto simp: datetime_add_def split: if_splits)
  have body: "(\<exists>txt d. set_reminder_body now reminders reminder_text time_str
                   = (Inr \<lparr>res_text = txt, res_fields = Reminder d\<rparr>, reminders @ [d])
                 \<and> r_text d = reminder_text)
              \<or> (\<exists>txt. set_reminder_body now reminders reminder_text time_str
                   = (Inr \<lparr>res_text = txt, res_fields = NoFields\<rparr>, reminders))
              \<or> set_reminder_body now reminders reminder_text time_str = (Inl ValueError, reminders)
              \<or> set_reminder_body now reminders reminder_text time_str = (Inl OverflowError, reminders)"
    by (auto simp: set_reminder_body_def new_reminder_def timedelta_minutes_def Let_def
             dest: tdel tadd split: option.splits sum.splits)
  from body show ?thesis
  proof (elim disjE exE conjE)
    fix tx d
    assume "set_reminder_body now reminders reminder_text time_str
              = (Inr \<lparr>res_text = tx, res_fields = Reminder d\<rparr>, reminders @ [d])"
      and "r_text d = reminder_text"
    with assms have "out = Inr \<lparr>res_text = tx, res_fields = Reminder d\<rparr>"
      "reminders' = reminders @ [d]" "r_text d = reminder_text"
      by (simp_all add: set_reminder_data_def)
    then show ?thesis by blast
  next
    fix tx
    assume "set_reminder_body now reminders reminder_text time_str
              = (Inr \<lparr>res_text = tx, res_fields = NoFields\<rparr>, reminders)"
    with assms have "out = Inr \<lparr>res_text = tx, res_fields = NoFields\<rparr>" "reminders' = reminders"
      by (simp_all add: set_reminder_data_def)
    then show ?thesis by blast
  next
    assume "set_reminder_body now reminders reminder_text time_str = (Inl ValueError, reminders)"
    with assms have "\<exists>tx. out = Inr \<lparr>res_text = tx, res_fields = NoFields\<rparr>" "reminders' = reminders"
      by (auto simp add: set_reminder_data_def)
    then show ?thesis by blast
  next
    assume "set_reminder_body now reminders reminder_text time_str = (Inl OverflowError, reminders)"
    with assms have "out = Inl OverflowError" "reminders' = reminders"
      by (simp_all add: set_reminder_data_def)
    then show ?thesis by blast
  qed
qed

text \<open>
  The text for an empty result list is never returned: the test that guards it is inside
  the branch that already requires a non-empty list.
\<close>

lemma get_news_data_text:
  "res_text (get_news_data e query)
     \<noteq> ''I couldn't find any news headlines for that topic from yesterday.''"
  by (auto simp: get_news_data_def Let_def split: news_reply.splits)

text \<open>
  \<open>find_str\<close> returns the start of the first occurrence.
\<close>

lemma find_str_prefix: "prefix kw s \<Longrightarrow> find_str kw s = Some 0"
  by (cases s) auto

lemma find_str_first:
  assumes "kw \<noteq> []" and "\<not> sublist kw (p @ butlast kw)"
  shows "find_str kw (p @ kw @ x) = Some (length p)"
  using assms(2)
proof (induction p)
  case Nil
  show ?case by (simp add: find_str_prefix)
next
  case (Cons c p)
  have np: "\<not> prefix kw (c # p @ kw @ x)"
  proof
    assume pr: "prefix kw (c # p @ kw @ x)"
    have eq: "c # p @ kw @ x = (c # p @ butlast kw) @ (last kw # x)"
      using assms(1) by simp
    have len: "length kw \<le> length (c # p @ butlast kw)"
      by simp
    from pr have "kw = take (length kw) (c # p @ kw @ x)"
      by (metis append_eq_conv_conj prefix_def)
    also have "\<dots> = take (length kw) (c # p @ butlast kw)"
      using len by (subst eq) (simp del: append_Cons)
    finally have "prefix kw (c # p @ butlast kw)"
      by (metis take_is_prefix)
    then have "sublist kw ((c # p) @ butlast kw)"
      by simp
    with Cons.prems show False by simp
  qed
  from Cons.prems have "\<not> sublist kw (p @ butlast kw)"
    by (auto simp: sublist_Cons_right)
  with Cons.IH np show ?case by simp
qed

section \<open>The claims\<close>

text \<open>
  C1: for the command \<^verbatim>\<open>remind me in 5 minutes to call mom\<close> the handler is called with
  the time string \<^verbatim>\<open>5 minutes\<close> and a reminder five minutes (300000000 microseconds)
  after the clock is appended, but the message it gets is \<^verbatim>\<open>to call mom\<close>: the text after
  the time string is stripped before \<^verbatim>\<open>" to "\<close> is looked for, so the leading
  \<^verbatim>\<open>to\<close> has lost the space in front of it and is not removed.
\<close>

theorem C1_message_keeps_to:
  "parse_reminder (lower ''remind me in 5 minutes to call mom'')
     = Inr (Call ''to call mom'' ''5 minutes'')
   \<and> process_command example_env 63929304000000000 63929304000000001 []
         ''remind me in 5 minutes to call mom''
       = (Ok200 \<lparr>rtype = ''reminder_set'',
                 rtext = ''Okay, I will remind you to 'to call mom' in 5 minutes.'',
                 rfields = Reminder \<lparr>r_time = 63929304300000000, r_text = ''to call mom''\<rparr>\<rparr>,
          [\<lparr>r_time = 63929304300000000, r_text = ''to call mom''\<rparr>])"
  by code_simp

text \<open>
  C2, as stated, fails: the sweep does not run when the branch raises. A reminder command
  whose number of minutes is beyond what \<^verbatim>\<open>timedelta\<close> holds raises OverflowError, which
  \<open>set_reminder_data\<close> does not catch; the endpoint answers 500 and the due reminder stays
  in the store.
\<close>

theorem C2_sweep_skipped_counterexample:
  "due 1000001 \<lparr>r_time = 5, r_text = ''tea''\<rparr>
   \<and> process_command example_env 1000000 1000001 [\<lparr>r_time = 5, r_text = ''tea''\<rparr>]
         ''remind me in 99999999999999 minutes to water the plants''
       = (Err500 OverflowError, [\<lparr>r_time = 5, r_text = ''tea''\<rparr>])"
  by code_simp

text \<open>
  C2, amended: whenever the branch of a command completes without raising, the sweep runs
  on the store the branch left. If at least one reminder of that store is due, the reply is
  the alert of the last due reminder in store order, whatever the branch computed; it is
  the only alert of the call, and every due reminder is removed. If none is due, the reply
  is the branch's response.
\<close>

theorem C2_sweep_after_branch:
  assumes "dispatch e now reminders (lower raw_command) = (Inr response_data, reminders1)"
  shows "process_command e now current_time reminders raw_command =
           (Ok200 (if filter (due current_time) reminders1 = [] then response_data
                   else alert (last (filter (due current_time) reminders1))),
            filter (\<lambda>r. \<not> due current_time r) reminders1)"
  using assms by (simp add: process_command_def due_sweep_eq)

theorem C2_sweep_after_branch_witness:
  "dispatch example_env 1000000
       [\<lparr>r_time = 5, r_text = ''tea''\<rparr>, \<lparr>r_time = 5000000, r_text = ''call''\<rparr>, \<lparr>r_time = 7, r_text = ''bins''\<rparr>]
       (lower ''Hello'')
     = (Inr unknown_response,
        [\<lparr>r_time = 5, r_text = ''tea''\<rparr>, \<lparr>r_time = 5000000, r_text = ''call''\<rparr>, \<lparr>r_time = 7, r_text = ''bins''\<rparr>])
   \<and> process_command example_env 1000000 1000001
       [\<lparr>r_time = 5, r_text = ''tea''\<rparr>, \<lparr>r_time = 5000000, r_text = ''call''\<rparr>, \<lparr>r_time = 7, r_text = ''bins''\<rparr>]
       ''Hello''
     = (Ok200 \<lparr>rtype = ''reminder_alert'', rtext = ''Reminder: bins'', rfields = NoFields\<rparr>,
        [\<lparr>r_time = 5000000, r_text = ''call''\<rparr>])"
proof -
  have h: "dispatch example_env 1000000
       [\<lparr>r_time = 5, r_text = ''tea''\<rparr>, \<lparr>r_time = 5000000, r_text = ''call''\<rparr>, \<lparr>r_time = 7, r_text = ''bins''\<rparr>]
       (lower ''Hello'')
     = (Inr unknown_response,
        [\<lparr>r_time = 5, r_text = ''tea''\<rparr>, \<lparr>r_time = 5000000, r_text = ''call''\<rparr>, \<lparr>r_time = 7, r_text = ''bins''\<rparr>])"
    by code_simp
  from C2_sweep_after_branch [OF h, of 1000001] h show ?thesis
    by (simp add: due_def alert_def)
qed

text \<open>
  C3: one sweep removes every reminder that is due at that moment and keeps the others.
  Over any run of sweeps, with reminders appended in between, the reminders fired and the
  reminders left add up to the reminders that were ever stored, counted with multiplicity:
  no stored reminder fires in two sweeps.
\<close>

theorem C3_fired_once:
  "snd (due_sweep current_time response_data reminders)
     = filter (\<lambda>r. \<not> due current_time r) reminders
   \<and> mset (fst (sweeps calls response_data reminders)) + mset (snd (sweeps calls response_data reminders))
       = mset reminders + mset (concat (map fst calls))"
  by (simp add: due_sweep_eq sweeps_conserve)

text \<open>
  C4, as stated, fails: the command is lowercased before anything else reads it, and the
  regex, which has no case-insensitive flag, and the message extraction work on that copy.
  The message and the time string of a command with capitals do not occur in the original
  text.
\<close>

theorem C4_original_casing_lost_counterexample:
  "parse_reminder (lower ''Remind me in 5 Minutes Call Mom'') = Inr (Call ''call mom'' ''5 minutes'')
   \<and> \<not> sublist ''call mom'' ''Remind me in 5 Minutes Call Mom''
   \<and> \<not> sublist ''5 minutes'' ''Remind me in 5 Minutes Call Mom''
   \<and> process_command example_env 63929304000000000 63929304000000001 []
         ''Remind me in 5 Minutes Call Mom''
       = (Ok200 \<lparr>rtype = ''reminder_set'',
                 rtext = ''Okay, I will remind you to 'call mom' in 5 minutes.'',
                 rfields = Reminder \<lparr>r_time = 63929304300000000, r_text = ''call mom''\<rparr>\<rparr>,
          [\<lparr>r_time = 63929304300000000, r_text = ''call mom''\<rparr>])"
  by code_simp

text \<open>
  C4, amended: the regex is applied to the lowercased command; the time string it matches
  and the reminder message passed to the handler are substrings of the lowercased command,
  so the message is in lower case, and the endpoint answers a command and its lowercased
  copy alike.
\<close>

theorem C4_message_from_lowercased_command:
  assumes "parse_reminder (lower raw_command) = Inr (Call reminder_text time_str)"
  shows "re_search (lower raw_command) = Some time_str
         \<and> sublist time_str (lower raw_command)
         \<and> sublist reminder_text (lower raw_command)
         \<and> lower reminder_text = reminder_text
         \<and> process_command e now current_time reminders (lower raw_command)
             = process_command e now current_time reminders raw_command"
  using parse_reminder_Call [OF assms] lower_sublist_fixed [of reminder_text raw_command]
  by (simp add: process_command_def lower_idem)

theorem C4_message_from_lowercased_command_witness:
  "parse_reminder (lower ''Set a REMINDER in 10 Seconds to Feed The Cat'')
     = Inr (Call ''to feed the cat'' ''10 seconds'')
   \<and> re_search (lower ''Set a REMINDER in 10 Seconds to Feed The Cat'') = Some ''10 seconds''
   \<and> sublist ''10 seconds'' (lower ''Set a REMINDER in 10 Seconds to Feed The Cat'')
   \<and> sublist ''to feed the cat'' (lower ''Set a REMINDER in 10 Seconds to Feed The Cat'')
   \<and> lower ''to feed the cat'' = ''to feed the cat''
   \<and> process_command example_env 63929304000000000 63929304000000001 []
         (lower ''Set a REMINDER in 10 Seconds to Feed The Cat'')
       = process_command example_env 63929304000000000 63929304000000001 []
           ''Set a REMINDER in 10 Seconds to Feed The Cat''"
proof -
  have h: "parse_reminder (lower ''Set a REMINDER in 10 Seconds to Feed The Cat'')
     = Inr (Call ''to feed the cat'' ''10 seconds'')"
    by code_simp
  from C4_message_from_lowercased_command
         [OF h, of example_env 63929304000000000 63929304000000001 "[]"] h
  show ?thesis by simp
qed

text \<open>
  C5: for \<^verbatim>\<open>tell me the news about technology\<close>, with the news API answering
  \<^verbatim>\<open>ok\<close> and an empty result list, the response has type \<^verbatim>\<open>news\<close> and no articles,
  but its text is the one for a failed fetch, not the one for an empty result.
\<close>

theorem C5_no_results_text:
  "news_query (lower ''tell me the news about technology'') trigger_words = Inr (Some ''technology'')
   \<and> news_get example_env
         (''https://content.guardianapis.com/search?&from-date=2026-11-02&order-by=newest&page-size=5''
          @ ''&api-key=news-key&q=technology&tag=technology/technology'')
       = NewsData ''ok'' []
   \<and> process_command example_env 63929304000000000 63929304000000001 []
         ''tell me the news about technology''
       = (Ok200 \<lparr>rtype = ''news'',
                 rtext = ''I couldn't fetch any news headlines at the moment.'',
                 rfields = Articles []\<rparr>,
          [])"
  by code_simp

text \<open>
  C6, as stated, fails: the location is cut from the lowercased command, so a location
  written with a capital is passed in lower case.
\<close>

theorem C6_location_lowercased_counterexample:
  "''What is the weather in Tokyo'' = ''What is the '' @ ''weather in'' @ '' Tokyo''
   \<and> strip '' Tokyo'' = ''Tokyo''
   \<and> location_to_check (lower ''What is the weather in Tokyo'') = Some ''tokyo''
   \<and> dispatch example_env 63929304000000000 [] (lower ''What is the weather in Tokyo'')
       = (Inr (with_type ''weather'' (get_weather_data example_env (Some ''tokyo''))), [])
   \<and> ''tokyo'' \<noteq> ''Tokyo''"
  by code_simp

text \<open>
  C6, amended: for a command without a time keyword, the location passed to the weather
  lookup is the text after the first \<^verbatim>\<open>weather in\<close> of the lowercased command, or after
  the first \<^verbatim>\<open>weather at\<close> when it has no \<^verbatim>\<open>weather in\<close>, with surrounding whitespace
  trimmed.
\<close>

theorem C6_location_after_first_phrase:
  assumes "lower raw_command = p @ kw @ x"
    and "kw = ''weather in'' \<or> (kw = ''weather at'' \<and> \<not> sublist ''weather in'' (lower raw_command))"
    and "\<not> sublist kw (p @ butlast kw)"
    and "\<not> any_in time_keywords (lower raw_command)"
  shows "location_to_check (lower raw_command) = Some (strip x)
         \<and> dispatch e now reminders (lower raw_command)
             = (Inr (with_type ''weather'' (get_weather_data e (Some (strip x)))), reminders)"
proof -
  from assms(2) have kw: "kw \<noteq> []" "length kw = 10" "prefix ''weather'' kw"
    by auto
  have occ: "sublist kw (lower raw_command)"
    by (simp add: assms(1))
  have "find_str kw (lower raw_command) = Some (length p)"
    unfolding assms(1) by (rule find_str_first [OF kw(1) assms(3)])
  then have "slice_from (lower raw_command) (str_find (lower raw_command) kw + int (length kw)) = x"
    by (simp add: str_find_def slice_from_def assms(1))
  with assms(2) occ have loc: "location_to_check (lower raw_command) = Some (strip x)"
    by (auto simp: location_to_check_def Let_def)
  from kw(3) occ have "sublist ''weather'' (lower raw_command)"
    by (meson prefix_imp_sublist sublist_order.order_trans)
  then have "any_in weather_keywords (lower raw_command)"
    by (simp add: any_in_def weather_keywords_def)
  with assms(4) loc show ?thesis
    by (simp add: dispatch_def)
qed

theorem C6_location_after_first_phrase_witness:
  "lower ''Weather at home or WEATHER IN Paris '' = ''weather at home or '' @ ''weather in'' @ '' paris ''
   \<and> \<not> sublist ''weather in'' (''weather at home or '' @ butlast ''weather in'')
   \<and> \<not> any_in time_keywords (lower ''Weather at home or WEATHER IN Paris '')
   \<and> location_to_check (lower ''Weather at home or WEATHER IN Paris '') = Some ''paris''
   \<and> dispatch example_env 63929304000000000 [] (lower ''Weather at home or WEATHER IN Paris '')
       = (Inr \<lparr>rtype = ''weather'',
               rtext = ''Sorry, I had trouble getting the weather. The error was: unreachable'',
               rfields = NoFields\<rparr>, [])"
proof -
  have h1: "lower ''Weather at home or WEATHER IN Paris '' = ''weather at home or '' @ ''weather in'' @ '' paris ''"
    and h3: "\<not> sublist ''weather in'' (''weather at home or '' @ butlast ''weather in'')"
    and h4: "\<not> any_in time_keywords (lower ''Weather at home or WEATHER IN Paris '')"
    by code_simp+
  have h2: "''weather in'' = ''weather in''
            \<or> (''weather in'' = ''weather at''
                \<and> \<not> sublist ''weather in'' (lower ''Weather at home or WEATHER IN Paris ''))"
    by simp
  have s: "strip '' paris '' = ''paris''"
    by code_simp
  have g: "with_type ''weather'' (get_weather_data example_env (Some ''paris''))
            = \<lparr>rtype = ''weather'',
               rtext = ''Sorry, I had trouble getting the weather. The error was: unreachable'',
               rfields = NoFields\<rparr>"
    by code_simp
  from C6_location_after_first_phrase [OF h1 h2 h3 h4, of example_env 63929304000000000 "[]"]
       h1 h3 h4 s g
  show ?thesis by simp
qed

text \<open>
  C7: the handler does raise. A time string whose number is beyond what \<^verbatim>\<open>timedelta\<close>
  holds, or that takes the clock past \<^verbatim>\<open>datetime.max\<close>, parses as an integer and then
  raises OverflowError, which \<^verbatim>\<open>except (ValueError, IndexError)\<close> lets through.
\<close>

theorem C7_overflow_escapes:
  "py_int (first_token ''99999999999999 minutes'') = Some 99999999999999
   \<and> set_reminder_data 63929304000000000 [] ''water the plants'' ''99999999999999 minutes''
       = (Inl OverflowError, [])
   \<and> timedelta_seconds 300000000000 = Inr 300000000000000000
   \<and> set_reminder_data 63929304000000000 [] ''water the plants'' ''300000000000 seconds''
       = (Inl OverflowError, [])"
  by code_simp

text \<open>
  C8: when no reminder of the store is due, the sweep returns the response of the branch
  unchanged and leaves the store as it was; in particular the store keeps its size.
\<close>

theorem C8_sweep_nothing_due:
  assumes "\<forall>r \<in> set reminders. \<not> due current_time r"
  shows "due_sweep current_time response_data reminders = (Inr response_data, reminders)
         \<and> length (snd (due_sweep current_time response_data reminders)) = length reminders"
proof -
  from assms have "filter (due current_time) reminders = []"
    by (simp add: filter_empty_conv)
  moreover from assms have "filter (\<lambda>r. \<not> due current_time r) reminders = reminders"
    by (simp add: filter_id_conv)
  ultimately show ?thesis by (simp add: due_sweep_eq)
qed

theorem C8_sweep_nothing_due_witness:
  "\<not> due 10 \<lparr>r_time = 20, r_text = ''tea''\<rparr> \<and> \<not> due 10 \<lparr>r_time = 30, r_text = ''call''\<rparr>
   \<and> due_sweep 10 unknown_response [\<lparr>r_time = 20, r_text = ''tea''\<rparr>, \<lparr>r_time = 30, r_text = ''call''\<rparr>]
       = (Inr unknown_response, [\<lparr>r_time = 20, r_text = ''tea''\<rparr>, \<lparr>r_time = 30, r_text = ''call''\<rparr>])
   \<and> length (snd (due_sweep 10 unknown_response
         [\<lparr>r_time = 20, r_text = ''tea''\<rparr>, \<lparr>r_time = 30, r_text = ''call''\<rparr>])) = 2"
proof -
  have h: "\<forall>r \<in> set [\<lparr>r_time = 20, r_text = ''tea''\<rparr>, \<lparr>r_time = 30, r_text = ''call''\<rparr>]. \<not> due 10 r"
    by (simp add: due_def)
  from C8_sweep_nothing_due [OF h, of unknown_response] h show ?thesis
    by (simp add: due_def)
qed

text \<open>
  C9: when the reminder branch calls the handler and the handler returns an error result,
  with no reminder created, the response of the branch has type \<^verbatim>\<open>reminder_set\<close>, not
  \<^verbatim>\<open>error\<close>, and carries the handler's text; it is what the endpoint returns when no
  reminder is due.
\<close>

theorem C9_parse_failure_labelled_reminder_set:
  assumes "\<not> any_in time_keywords (lower raw_command)"
    and "\<not> any_in weather_keywords (lower raw_command)"
    and "\<not> sublist ''news'' (lower raw_command)"
    and "any_in reminder_keywords (lower raw_command)"
    and "parse_reminder (lower raw_command) = Inr (Call reminder_text time_str)"
    and "set_reminder_data now reminders reminder_text time_str = (Inr r, reminders')"
    and "res_fields r = NoFields"
  shows "dispatch e now reminders (lower raw_command)
           = (Inr \<lparr>rtype = ''reminder_set'', rtext = res_text r, rfields = NoFields\<rparr>, reminders)
         \<and> (filter (due current_time) reminders = [] \<longrightarrow>
              process_command e now current_time reminders raw_command
                = (Ok200 \<lparr>rtype = ''reminder_set'', rtext = res_text r, rfields = NoFields\<rparr>, reminders))"
proof -
  from set_reminder_data_cases [OF assms(6)] assms(7) have same: "reminders' = reminders"
    by auto
  from assms(1-6) have d: "dispatch e now reminders (lower raw_command)
           = (Inr \<lparr>rtype = ''reminder_set'', rtext = res_text r, rfields = NoFields\<rparr>, reminders)"
    by (simp add: dispatch_def with_type_def same assms(7))
  then show ?thesis
    by (simp add: process_command_def due_sweep_eq filter_empty_conv)
qed

theorem C9_parse_failure_labelled_reminder_set_witness:
  "\<not> any_in time_keywords (lower ''Remind me in 5minutes call mom'')
   \<and> \<not> any_in weather_keywords (lower ''Remind me in 5minutes call mom'')
   \<and> \<not> sublist ''news'' (lower ''Remind me in 5minutes call mom'')
   \<and> any_in reminder_keywords (lower ''Remind me in 5minutes call mom'')
   \<and> parse_reminder (lower ''Remind me in 5minutes call mom'') = Inr (Call ''call mom'' ''5minutes'')
   \<and> set_reminder_data 63929304000000000 [\<lparr>r_time = 63929305000000000, r_text = ''tea''\<rparr>]
         ''call mom'' ''5minutes''
       = (Inr \<lparr>res_text = ''Sorry, I couldn't understand the time. Please specify a number followed by 'seconds' or 'minutes'.'',
               res_fields = NoFields\<rparr>,
          [\<lparr>r_time = 63929305000000000, r_text = ''tea''\<rparr>])
   \<and> process_command example_env 63929304000000000 63929304000000001
         [\<lparr>r_time = 63929305000000000, r_text = ''tea''\<rparr>] ''Remind me in 5minutes call mom''
       = (Ok200 \<lparr>rtype = ''reminder_set'',
                 rtext = ''Sorry, I couldn't understand the time. Please specify a number followed by 'seconds' or 'minutes'.'',
                 rfields = NoFields\<rparr>,
          [\<lparr>r_time = 63929305000000000, r_text = ''tea''\<rparr>])"
proof -
  have h1: "\<not> any_in time_keywords (lower ''Remind me in 5minutes call mom'')"
    and h2: "\<not> any_in weather_keywords (lower ''Remind me in 5minutes call mom'')"
    and h3: "\<not> sublist ''news'' (lower ''Remind me in 5minutes call mom'')"
    and h4: "any_in reminder_keywords (lower ''Remind me in 5minutes call mom'')"
    and h5: "parse_reminder (lower ''Remind me in 5minutes call mom'') = Inr (Call ''call mom'' ''5minutes'')"
    by code_simp+
  have h6: "set_reminder_data 63929304000000000 [\<lparr>r_time = 63929305000000000, r_text = ''tea''\<rparr>]
         ''call mom'' ''5minutes''
       = (Inr \<lparr>res_text = ''Sorry, I couldn't understand the time. Please specify a number followed by 'seconds' or 'minutes'.'',
               res_fields = NoFields\<rparr>,
          [\<lparr>r_time = 63929305000000000, r_text = ''tea''\<rparr>])"
    by code_simp
  have nd: "filter (due 63929304000000001) [\<lparr>r_time = 63929305000000000, r_text = ''tea''\<rparr>] = []"
    by (simp add: due_def)
  from C9_parse_failure_labelled_reminder_set
         [OF h1 h2 h3 h4 h5 h6, of example_env 63929304000000001]
       nd h1 h2 h3 h4 h5 h6
  show ?thesis by simp
qed

text \<open>
  C10: the handler changes the store exactly when it returns a confirmation, and then it
  appends the one reminder the confirmation carries; on an error result, and when it
  raises, the store is the one it was given.
\<close>

theorem C10_store_changes_iff_confirmed:
  assumes "set_reminder_data now reminders reminder_text time_str = (out, reminders')"
  shows "((\<exists>txt d. out = Inr \<lparr>res_text = txt, res_fields = Reminder d\<rparr>
             \<and> r_text d = reminder_text \<and> reminders' = reminders @ [d])
          \<or> ((out = Inl OverflowError \<or> (\<exists>txt. out = Inr \<lparr>res_text = txt, res_fields = NoFields\<rparr>))
             \<and> reminders' = reminders))
         \<and> ((reminders' \<noteq> reminders) = (\<exists>txt d. out = Inr \<lparr>res_text = txt, res_fields = Reminder d\<rparr>))"
  using set_reminder_data_cases [OF assms] by auto

theorem C10_store_changes_iff_confirmed_witness:
  "set_reminder_data 63929304000000000 [] ''call mom'' ''5 minutes''
     = (Inr \<lparr>res_text = ''Okay, I will remind you to 'call mom' in 5 minutes.'',
             res_fields = Reminder \<lparr>r_time = 63929304300000000, r_text = ''call mom''\<rparr>\<rparr>,
        [\<lparr>r_time = 63929304300000000, r_text = ''call mom''\<rparr>])
   \<and> ([\<lparr>r_time = 63929304300000000, r_text = ''call mom''\<rparr>] \<noteq> [])
       = (\<exists>tx d. (Inr \<lparr>res_text = ''Okay, I will remind you to 'call mom' in 5 minutes.'',
                      res_fields = Reminder \<lparr>r_time = 63929304300000000, r_text = ''call mom''\<rparr>\<rparr>
                   :: py_error + result)
                  = Inr \<lparr>res_text = tx, res_fields = Reminder d\<rparr>)"
proof -
  have h: "set_reminder_data 63929304000000000 [] ''call mom'' ''5 minutes''
     = (Inr \<lparr>res_text = ''Okay, I will remind you to 'call mom' in 5 minutes.'',
             res_fields = Reminder \<lparr>r_time = 63929304300000000, r_text = ''call mom''\<rparr>\<rparr>,
        [\<lparr>r_time = 63929304300000000, r_text = ''call mom''\<rparr>])"
    by code_simp
  from C10_store_changes_iff_confirmed [OF h] h show ?thesis
    by simp
qed

end
